theory Spec2Isabelle
  imports
    Complex_Main
    "HOL-Library.Multiset"
    "HOL-Library.AList"
    "HOL-Library.Char_ord"
    "HOL-Library.List_Lexorder"
    "HOL-Library.Product_Lexorder"
begin

section \<open>Python values and errors\<close>

text \<open>
  The development embeds \<^verbatim>\<open>deltective/inspector.py\<close> and \<^verbatim>\<open>deltective/insights.py\<close>.
  Python's unbounded integers are \<^typ>\<open>int\<close>. Python's true division yields a float; the
  model computes it in \<^typ>\<open>real\<close>, exactly, so the rounding of binary floating point is
  not part of the model, and an integer that becomes a float is taken to be in the range
  of floats (the conversion does not raise). Every other exception the embedded code can
  raise is a value \<open>Inl e\<close> of the result type.
\<close>

datatype py_error = ZeroDivisionError | ValueError | KeyError | IndexError | TypeError | OverflowError

definition bind :: "py_error + 'a \<Rightarrow> ('a \<Rightarrow> py_error + 'b) \<Rightarrow> py_error + 'b" where
  "bind m f = (case m of Inl e \<Rightarrow> Inl e | Inr x \<Rightarrow> f x)"

definition truediv :: "real \<Rightarrow> real \<Rightarrow> py_error + real" where
  \<comment> \<open>\<^verbatim>\<open>a / b\<close>\<close>
  "truediv a b = (if b = 0 then Inl ZeroDivisionError else Inr (a / b))"

text \<open>
  A naive \<^verbatim>\<open>datetime\<close> is a count of microseconds on the local time line, and a
  \<^verbatim>\<open>timedelta\<close> a difference of two such counts. \<^verbatim>\<open>timedelta.days\<close> is the
  normalised day field: the floor of the difference over one day.
\<close>

type_synonym datetime = int

definition timedelta_days :: "int \<Rightarrow> int" where
  "timedelta_days d = d div 86400000000"

section \<open>The data model of inspector.py\<close>

record FileInfo =
  path :: string
  size_bytes :: int
  modification_time :: datetime
  partition_values :: "(string \<times> string) list"

text \<open>
  \<^verbatim>\<open>TableStatistics.metadata\<close> is a dictionary with the four keys below, and
  \<^verbatim>\<open>last_operation\<close> one with the keys operation, timestamp, parameters and metrics.
\<close>

record metadata_dict =
  md_id :: "string option"
  md_name :: "string option"
  md_description :: "string option"
  md_created_time :: "int option"

record last_operation_dict =
  lo_operation :: "string option"
  lo_timestamp :: datetime
  lo_parameters :: "(string \<times> string) list option"
  lo_metrics :: "(string \<times> int) list option"

record TableStatistics =
  table_path :: string
  version :: int
  num_files :: int
  total_size_bytes :: int
  schema :: "(string \<times> string) list"
  partition_columns :: "string list"
  num_rows :: "int option"
  files :: "FileInfo list"
  metadata :: metadata_dict
  total_versions :: int
  oldest_version :: int
  min_reader_version :: int
  min_writer_version :: int
  reader_features :: "string list"
  writer_features :: "string list"
  created_time :: "datetime option"
  last_operation :: "last_operation_dict option"
  last_vacuum :: "datetime option"

section \<open>insights.py: the analyzer\<close>

text \<open>
  An insight carries severity, category and title. The two remaining fields of the
  source's dataclass, description and recommendation, are display texts (f-strings that
  format floats); no rule and no step of \<^verbatim>\<open>analyze\<close> reads them, and they are not
  part of the model.
\<close>

record Insight =
  severity :: string
  category :: string
  title :: string

definition SMALL_FILE_THRESHOLD_MB :: real where "SMALL_FILE_THRESHOLD_MB = 10"
definition OPTIMAL_FILE_SIZE_MB :: real where "OPTIMAL_FILE_SIZE_MB = 128"
definition MAX_RECOMMENDED_FILES :: int where "MAX_RECOMMENDED_FILES = 1000"
definition MIN_FILE_SIZE_VARIANCE :: real where "MIN_FILE_SIZE_VARIANCE = 0.5"
definition VACUUM_RECOMMENDATION_DAYS :: int where "VACUUM_RECOMMENDATION_DAYS = 7"

definition small_files_problem :: Insight where
  "small_files_problem =
     \<lparr>severity = ''critical'', category = ''performance'', title = ''Small Files Problem Detected''\<rparr>"

definition some_small_files :: Insight where
  "some_small_files =
     \<lparr>severity = ''warning'', category = ''performance'', title = ''Some Small Files Detected''\<rparr>"

definition suboptimal_average :: Insight where
  "suboptimal_average =
     \<lparr>severity = ''warning'', category = ''performance'', title = ''Suboptimal Average File Size''\<rparr>"

definition high_file_count :: Insight where
  "high_file_count =
     \<lparr>severity = ''warning'', category = ''performance'', title = ''High File Count''\<rparr>"

definition never_vacuumed :: Insight where
  "never_vacuumed =
     \<lparr>severity = ''warning'', category = ''cost'', title = ''Table Has Never Been Vacuumed''\<rparr>"

definition vacuum_overdue :: Insight where
  "vacuum_overdue =
     \<lparr>severity = ''warning'', category = ''cost'', title = ''Vacuum Overdue''\<rparr>"

definition not_partitioned :: Insight where
  "not_partitioned =
     \<lparr>severity = ''info'', category = ''performance'', title = ''Table Not Partitioned''\<rparr>"

definition over_partitioned :: Insight where
  "over_partitioned =
     \<lparr>severity = ''warning'', category = ''performance'', title = ''Over-Partitioned Table''\<rparr>"

definition under_partitioned :: Insight where
  "under_partitioned =
     \<lparr>severity = ''info'', category = ''performance'', title = ''Under-Partitioned Table''\<rparr>"

definition regular_optimization :: Insight where
  "regular_optimization =
     \<lparr>severity = ''info'', category = ''maintenance'', title = ''Consider Regular Optimization''\<rparr>"

definition data_skew :: Insight where
  "data_skew =
     \<lparr>severity = ''warning'', category = ''performance'', title = ''Data Skew Detected''\<rparr>"

definition many_small_writes :: Insight where
  "many_small_writes =
     \<lparr>severity = ''info'', category = ''performance'', title = ''Many Small Writes Detected''\<rparr>"

definition looks_good :: Insight where
  "looks_good =
     \<lparr>severity = ''good'', category = ''performance'', title = ''Table Configuration Looks Good''\<rparr>"

subsection \<open>The rules\<close>

text \<open>
  Each rule of the source appends to \<^verbatim>\<open>self.insights\<close>; here it takes the list
  and returns the new one.
\<close>

definition analyze_file_sizes :: "TableStatistics \<Rightarrow> Insight list \<Rightarrow> py_error + Insight list" where
  "analyze_file_sizes stats insights =
     (if files stats = [] then Inr insights
      else
        let file_sizes_mb = map (\<lambda>f. real_of_int (size_bytes f) / (1024 * 1024)) (files stats) in
        bind (truediv (sum_list file_sizes_mb) (real (length file_sizes_mb))) (\<lambda>avg_size_mb.
        let small_files = filter (\<lambda>s. s < SMALL_FILE_THRESHOLD_MB) file_sizes_mb in
        bind (if small_files \<noteq> [] then
                bind (truediv (real (length small_files)) (real (length file_sizes_mb))) (\<lambda>q.
                let pct_small = q * 100 in
                if pct_small > 50 then Inr (insights @ [small_files_problem])
                else if pct_small > 20 then Inr (insights @ [some_small_files])
                else Inr insights)
              else Inr insights) (\<lambda>insights1.
        if avg_size_mb < OPTIMAL_FILE_SIZE_MB / 2 then Inr (insights1 @ [suboptimal_average])
        else Inr insights1)))"

definition analyze_file_count :: "TableStatistics \<Rightarrow> Insight list \<Rightarrow> py_error + Insight list" where
  "analyze_file_count stats insights =
     (if num_files stats > MAX_RECOMMENDED_FILES then Inr (insights @ [high_file_count])
      else Inr insights)"

text \<open>
  \<^verbatim>\<open>_analyze_vacuum_history\<close> calls \<^verbatim>\<open>datetime.now()\<close>. The value the clock
  returns at that call is the argument \<open>now\<close> of the model: it comes from the
  environment, not from the caller of \<^verbatim>\<open>analyze\<close>.
\<close>

definition analyze_vacuum_history ::
  "datetime \<Rightarrow> TableStatistics \<Rightarrow> Insight list \<Rightarrow> py_error + Insight list" where
  "analyze_vacuum_history now stats insights =
     (case last_vacuum stats of
        None \<Rightarrow>
          if total_versions stats > 10 then Inr (insights @ [never_vacuumed]) else Inr insights
      | Some lv \<Rightarrow>
          let days_since_vacuum = timedelta_days (now - lv) in
          if days_since_vacuum > VACUUM_RECOMMENDATION_DAYS * 4
          then Inr (insights @ [vacuum_overdue]) else Inr insights)"

text \<open>
  The partition key of a file is \<^verbatim>\<open>str(sorted(file.partition_values.items()))\<close>. The
  sorted list of items is the key of the model; \<^verbatim>\<open>str\<close> renders it injectively.
  The dictionary of counts is an association list in insertion order.
\<close>

definition partition_key :: "FileInfo \<Rightarrow> (string \<times> string) list" where
  "partition_key file = sort (partition_values file)"

definition dict_get :: "('k \<times> 'v) list \<Rightarrow> 'k \<Rightarrow> 'v \<Rightarrow> 'v" where
  \<comment> \<open>\<^verbatim>\<open>d.get(k, default)\<close>\<close>
  "dict_get d k dflt = (case map_of d k of None \<Rightarrow> dflt | Some v \<Rightarrow> v)"

fun count_partitions ::
  "FileInfo list \<Rightarrow> ((string \<times> string) list \<times> int) list \<Rightarrow> ((string \<times> string) list \<times> int) list" where
  "count_partitions [] partition_counts = partition_counts"
| "count_partitions (file # rest) partition_counts =
     count_partitions rest
       (AList.update (partition_key file) (dict_get partition_counts (partition_key file) 0 + 1)
          partition_counts)"

definition analyze_partitioning :: "TableStatistics \<Rightarrow> Insight list \<Rightarrow> py_error + Insight list" where
  "analyze_partitioning stats insights =
     (if partition_columns stats = [] then
        (if total_size_bytes stats > 1024 * 1024 * 1024 * 10
         then Inr (insights @ [not_partitioned]) else Inr insights)
      else if files stats \<noteq> [] then
        let partition_counts = count_partitions (files stats) [];
            num_partitions = int (length partition_counts) in
        bind (if num_partitions > 0
              then truediv (real_of_int (num_files stats)) (real_of_int num_partitions)
              else Inr 0) (\<lambda>avg_files_per_partition.
        if num_partitions > 1000 \<and> avg_files_per_partition < 5
        then Inr (insights @ [over_partitioned])
        else if num_partitions < 10 \<and> avg_files_per_partition > 100
        then Inr (insights @ [under_partitioned])
        else Inr insights)
      else Inr insights)"

definition analyze_optimization_history ::
  "TableStatistics \<Rightarrow> Insight list \<Rightarrow> py_error + Insight list" where
  "analyze_optimization_history stats insights =
     (if total_versions stats > 20 then
        (if num_files stats > MAX_RECOMMENDED_FILES
         then Inr (insights @ [regular_optimization]) else Inr insights)
      else Inr insights)"

definition analyze_data_skew :: "TableStatistics \<Rightarrow> Insight list \<Rightarrow> py_error + Insight list" where
  "analyze_data_skew stats insights =
     (if length (files stats) < 2 then Inr insights
      else
        let file_sizes = map size_bytes (files stats) in
        bind (truediv (real_of_int (sum_list file_sizes)) (real (length file_sizes))) (\<lambda>mean_size.
        bind (truediv (sum_list (map (\<lambda>s. (real_of_int s - mean_size) ^ 2) file_sizes))
                (real (length file_sizes))) (\<lambda>variance.
        let std_dev = sqrt variance in
        bind (if mean_size > 0 then truediv std_dev mean_size else Inr 0) (\<lambda>coef_variation.
        if coef_variation > MIN_FILE_SIZE_VARIANCE then Inr (insights @ [data_skew])
        else Inr insights))))"

definition analyze_write_patterns :: "TableStatistics \<Rightarrow> Insight list \<Rightarrow> py_error + Insight list" where
  "analyze_write_patterns stats insights =
     (if total_versions stats > 1 then
        bind (truediv (real_of_int (num_files stats)) (real_of_int (total_versions stats)))
          (\<lambda>files_per_version.
        if files_per_version < 5 \<and> total_versions stats > 10
        then Inr (insights @ [many_small_writes]) else Inr insights)
      else Inr insights)"

subsection \<open>analyze\<close>

definition severity_order :: "(string \<times> int) list" where
  "severity_order = [(''critical'', 0), (''warning'', 1), (''info'', 2), (''good'', 3)]"

definition severity_rank :: "Insight \<Rightarrow> int" where
  \<comment> \<open>the sort key \<^verbatim>\<open>lambda x: severity_order.get(x.severity, 99)\<close>\<close>
  "severity_rank x = dict_get severity_order (severity x) 99"

definition run_rules :: "datetime \<Rightarrow> TableStatistics \<Rightarrow> py_error + Insight list" where
  \<comment> \<open>the seven rule calls of \<^verbatim>\<open>analyze\<close>, starting from the empty list\<close>
  "run_rules now stats =
     bind (analyze_file_sizes stats []) (\<lambda>i1.
     bind (analyze_file_count stats i1) (\<lambda>i2.
     bind (analyze_vacuum_history now stats i2) (\<lambda>i3.
     bind (analyze_partitioning stats i3) (\<lambda>i4.
     bind (analyze_optimization_history stats i4) (\<lambda>i5.
     bind (analyze_data_skew stats i5) (\<lambda>i6.
     analyze_write_patterns stats i6))))))"

definition add_positive_feedback :: "Insight list \<Rightarrow> Insight list" where
  "add_positive_feedback insights =
     (if \<not> list_ex (\<lambda>i. severity i \<in> set [''critical'', ''warning'']) insights
      then insights @ [looks_good] else insights)"

definition analyze :: "datetime \<Rightarrow> TableStatistics \<Rightarrow> py_error + Insight list" where
  "analyze now stats =
     bind (run_rules now stats) (\<lambda>insights.
     Inr (sort_key severity_rank (add_positive_feedback insights)))"

definition emits :: "datetime \<Rightarrow> TableStatistics \<Rightarrow> Insight \<Rightarrow> bool" where
  \<comment> \<open>\<^verbatim>\<open>analyze\<close> returns, and the insight is in the returned list\<close>
  "emits now stats x = (case analyze now stats of Inl e \<Rightarrow> False | Inr insights \<Rightarrow> x \<in> set insights)"

section \<open>inspector.py: strings\<close>

text \<open>
  Strings are byte strings; the model follows Python on ASCII text. The whitespace of
  \<^verbatim>\<open>str.strip\<close> and \<^verbatim>\<open>int\<close> is, within ASCII, the ten characters below.
\<close>

definition startswith :: "string \<Rightarrow> string \<Rightarrow> bool" where
  "startswith s p = (take (length p) s = p)"

function replace :: "string \<Rightarrow> string \<Rightarrow> string \<Rightarrow> string" where
  \<comment> \<open>\<^verbatim>\<open>s.replace(old, new)\<close>: every occurrence, left to right, without overlap\<close>
  "replace old new s =
     (if old = [] then new @ concat (map (\<lambda>c. c # new) s)
      else if s = [] then []
      else if take (length old) s = old then new @ replace old new (drop (length old) s)
      else hd s # replace old new (tl s))"
  by pat_completeness auto
termination
  by (relation "measure (\<lambda>(old, new, s). length s)") auto

declare replace.simps [simp del]

definition isspace :: "char \<Rightarrow> bool" where
  "isspace c = (c \<in> set [CHR 0x20, CHR 0x09, CHR 0x0A, CHR 0x0B, CHR 0x0C, CHR 0x0D,
                          CHR 0x1C, CHR 0x1D, CHR 0x1E, CHR 0x1F])"

definition strip :: "string \<Rightarrow> string" where
  "strip s = rev (dropWhile isspace (rev (dropWhile isspace s)))"

definition isdigit :: "char \<Rightarrow> bool" where
  "isdigit c = (c \<in> set ''0123456789'')"

definition digit_value :: "char \<Rightarrow> int" where
  "digit_value c = int (of_char c) - 48"

fun parse_digits :: "int \<Rightarrow> string \<Rightarrow> int option" where
  \<comment> \<open>the rest of a decimal literal after a digit: digits, single underscores between them\<close>
  "parse_digits acc [] = Some acc"
| "parse_digits acc [c] = (if isdigit c then Some (10 * acc + digit_value c) else None)"
| "parse_digits acc (c # d # ds) =
     (if isdigit c then parse_digits (10 * acc + digit_value c) (d # ds)
      else if c = CHR ''_'' \<and> isdigit d then parse_digits (10 * acc + digit_value d) ds
      else None)"

definition parse_unsigned :: "string \<Rightarrow> int option" where
  "parse_unsigned s =
     (case s of [] \<Rightarrow> None
      | c # cs \<Rightarrow> if isdigit c then parse_digits (digit_value c) cs else None)"

definition py_int :: "string \<Rightarrow> py_error + int" where
  \<comment> \<open>\<^verbatim>\<open>int(s)\<close> on a string, base 10, without the interpreter's limit on the number of digits\<close>
  "py_int s =
     (let t = strip s in
      case (case t of
              [] \<Rightarrow> None
            | c # cs \<Rightarrow>
                if c = CHR ''-'' then map_option uminus (parse_unsigned cs)
                else if c = CHR ''+'' then parse_unsigned cs
                else parse_unsigned t) of
        None \<Rightarrow> Inl ValueError
      | Some n \<Rightarrow> Inr n)"

function str_nat :: "nat \<Rightarrow> string" where
  "str_nat n =
     (if n < 10 then [char_of (48 + n)] else str_nat (n div 10) @ [char_of (48 + n mod 10)])"
  by pat_completeness auto
termination
  by (relation "measure id") auto

declare str_nat.simps [simp del]

definition str_int :: "int \<Rightarrow> string" where
  \<comment> \<open>\<^verbatim>\<open>str(n)\<close> of an integer\<close>
  "str_int n = (if n < 0 then CHR ''-'' # str_nat (nat (- n)) else str_nat (nat n))"

definition index :: "'a list \<Rightarrow> nat \<Rightarrow> py_error + 'a" where
  \<comment> \<open>\<^verbatim>\<open>xs[i]\<close> at a non-negative index\<close>
  "index xs i = (if i < length xs then Inr (xs ! i) else Inl IndexError)"

section \<open>inspector.py: what the table handle supplies\<close>

text \<open>
  The \<^verbatim>\<open>deltalake\<close> library is outside the repository. Its results are the input of the
  model: the entries of \<^verbatim>\<open>table.history()\<close> are dictionaries, read with
  \<^verbatim>\<open>get\<close>, so every key may be absent (\<open>None\<close>);
  \<^verbatim>\<open>get_add_actions(flatten=True)\<close>, converted by \<^verbatim>\<open>to_pydict\<close>, is a dictionary
  from column names to columns.
\<close>

record CommitEntry =
  operation :: "string option"
  timestamp :: "int option"
  commit_version :: "int option"
  operationParameters :: "(string \<times> string) list option"
  operationMetrics :: "(string \<times> int) list option"

record Metadata =
  metadata_id :: string
  metadata_name :: "string option"
  metadata_description :: "string option"
  metadata_created_time :: "int option"
  metadata_partition_columns :: "string list"
  metadata_configuration :: "(string \<times> string) list"

record Protocol =
  protocol_min_reader_version :: int
  protocol_min_writer_version :: int
  protocol_reader_features :: "string list option"
  protocol_writer_features :: "string list option"

datatype cell = CNone | CInt int | CStr string

text \<open>
  The columns \<^verbatim>\<open>path\<close>, \<^verbatim>\<open>size_bytes\<close> and \<^verbatim>\<open>modification_time\<close> of the
  add-actions dictionary have their types; the last two may be absent (the source reads
  them with \<^verbatim>\<open>get\<close>) and their cells may be null. All other columns, among them the
  \<^verbatim>\<open>partition.*\<close> ones, are kept with their names, in the order of the dictionary.
\<close>

record add_actions_dict =
  path_column :: "string list"
  size_bytes_column :: "int option list option"
  modification_time_column :: "int option list option"
  other_columns :: "(string \<times> cell list) list"

text \<open>
  The table handle: what \<^verbatim>\<open>version()\<close>, \<^verbatim>\<open>metadata()\<close>,
  \<^verbatim>\<open>get_add_actions\<close>, \<^verbatim>\<open>protocol()\<close> and \<^verbatim>\<open>history()\<close> return, and
  the dictionary that \<^verbatim>\<open>get_schema_dict\<close> builds from \<^verbatim>\<open>schema()\<close>, which
  \<^verbatim>\<open>get_statistics\<close> stores as it is.
\<close>

record DeltaTable =
  dt_version :: int
  dt_schema_dict :: "(string \<times> string) list"
  dt_metadata :: "Metadata option"
  dt_add_actions :: add_actions_dict
  dt_protocol :: Protocol
  dt_history :: "CommitEntry list"

section \<open>inspector.py: get_statistics\<close>

definition str_cell :: "cell \<Rightarrow> string" where
  \<comment> \<open>\<^verbatim>\<open>str(partition_val)\<close>\<close>
  "str_cell v = (case v of CNone \<Rightarrow> ''None'' | CInt n \<Rightarrow> str_int n | CStr s \<Rightarrow> s)"

fun extract_partition_values ::
  "(string \<times> cell list) list \<Rightarrow> nat \<Rightarrow> (string \<times> string) list \<Rightarrow> py_error + (string \<times> string) list" where
  \<comment> \<open>the loop over \<^verbatim>\<open>add_actions_dict.keys()\<close> on the dictionary \<open>pvalues\<close> of file \<open>i\<close>\<close>
  "extract_partition_values [] i pvalues = Inr pvalues"
| "extract_partition_values ((key, column) # rest) i pvalues =
     (if startswith key ''partition.'' then
        let partition_col = replace ''partition.'' [] key in
        bind (index column i) (\<lambda>partition_val.
        extract_partition_values rest i
          (if partition_val \<noteq> CNone
           then AList.update partition_col (str_cell partition_val) pvalues
           else pvalues))
      else extract_partition_values rest i pvalues)"

text \<open>
  \<^verbatim>\<open>datetime.fromtimestamp(ms / 1000)\<close> depends on the time zone of the process and
  raises beyond the supported years; it is the parameter \<open>fromtimestamp\<close>, applied to the
  milliseconds.
\<close>

fun collect_files ::
  "(int \<Rightarrow> py_error + datetime) \<Rightarrow> add_actions_dict \<Rightarrow> nat list \<Rightarrow> int \<times> FileInfo list
     \<Rightarrow> py_error + int \<times> FileInfo list" where
  \<comment> \<open>the loop \<^verbatim>\<open>for i in range(num_files)\<close> on \<^verbatim>\<open>(total_size, files_info)\<close>\<close>
  "collect_files fromtimestamp d [] acc = Inr acc"
| "collect_files fromtimestamp d (i # rest) acc =
     (let total_size = fst acc; files_info = snd acc in
      bind (index (case size_bytes_column d of None \<Rightarrow> [Some 0] | Some c \<Rightarrow> c) i) (\<lambda>v.
      let size = (case v of None \<Rightarrow> 0 | Some n \<Rightarrow> if n = 0 then 0 else n);
          total_size = total_size + size in
      bind (extract_partition_values (other_columns d) i []) (\<lambda>partition_values.
      bind (index (path_column d) i) (\<lambda>p.
      bind (index (case modification_time_column d of None \<Rightarrow> [Some 0] | Some c \<Rightarrow> c) i) (\<lambda>mt.
      bind (case mt of None \<Rightarrow> Inl TypeError | Some ms \<Rightarrow> fromtimestamp ms) (\<lambda>mtime.
      let file_info = \<lparr>path = p, size_bytes = size, modification_time = mtime,
                         partition_values = partition_values\<rparr> in
      collect_files fromtimestamp d rest (total_size, files_info @ [file_info])))))))"

definition get_statistics ::
  "(int \<Rightarrow> py_error + datetime) \<Rightarrow> string \<Rightarrow> DeltaTable \<Rightarrow> py_error + TableStatistics" where
  "get_statistics fromtimestamp self_table_path table =
     (let version = dt_version table;
          schema = dt_schema_dict table;
          metadata = dt_metadata table;
          partition_columns = (case metadata of None \<Rightarrow> [] | Some m \<Rightarrow> metadata_partition_columns m);
          add_actions = dt_add_actions table;
          num_files = length (path_column add_actions) in
      bind (collect_files fromtimestamp add_actions [0..<num_files] (0, [])) (\<lambda>(total_size, files_info).
      let num_rows = None;
          protocol = dt_protocol table;
          history = dt_history table;
          total_versions = int (length history);
          reader_features = (case protocol_reader_features protocol of
                               None \<Rightarrow> [] | Some fs \<Rightarrow> fs);
          writer_features = (case protocol_writer_features protocol of
                               None \<Rightarrow> [] | Some fs \<Rightarrow> fs) in
      bind (case metadata of
              None \<Rightarrow> Inr None
            | Some m \<Rightarrow>
                (case metadata_created_time m of
                   None \<Rightarrow> Inr None
                 | Some ct \<Rightarrow> if ct = 0 then Inr None else map_sum id Some (fromtimestamp ct)))
        (\<lambda>created_time.
      bind (case history of
              [] \<Rightarrow> Inr None
            | h0 # _ \<Rightarrow>
                bind (fromtimestamp (case timestamp h0 of None \<Rightarrow> 0 | Some t \<Rightarrow> t)) (\<lambda>ts.
                Inr (Some \<lparr>lo_operation = operation h0, lo_timestamp = ts,
                           lo_parameters = operationParameters h0,
                           lo_metrics = operationMetrics h0\<rparr>)))
        (\<lambda>last_operation.
      bind (case List.find (\<lambda>entry. operation entry = Some ''VACUUM'') history of
              None \<Rightarrow> Inr None
            | Some entry \<Rightarrow>
                map_sum id Some (fromtimestamp (case timestamp entry of None \<Rightarrow> 0 | Some t \<Rightarrow> t)))
        (\<lambda>last_vacuum.
      let oldest_version =
            (case history of
               [] \<Rightarrow> 0
             | h0 # hs \<Rightarrow>
                 Min (set (map (\<lambda>entry. case commit_version entry of None \<Rightarrow> 0 | Some v \<Rightarrow> v)
                             history))) in
      Inr \<lparr>table_path = self_table_path,
           version = version,
           num_files = int (length files_info),
           total_size_bytes = total_size,
           schema = schema,
           partition_columns = partition_columns,
           num_rows = num_rows,
           files = files_info,
           metadata =
             \<lparr>md_id = map_option metadata_id metadata,
              md_name = Option.bind metadata metadata_name,
              md_description = Option.bind metadata metadata_description,
              md_created_time = Option.bind metadata metadata_created_time\<rparr>,
           total_versions = total_versions,
           oldest_version = oldest_version,
           min_reader_version = protocol_min_reader_version protocol,
           min_writer_version = protocol_min_writer_version protocol,
           reader_features = reader_features,
           writer_features = writer_features,
           created_time = created_time,
           last_operation = last_operation,
           last_vacuum = last_vacuum\<rparr>)))))"

section \<open>inspector.py: advanced features\<close>

record advanced_features =
  deletion_vectors :: bool
  column_mapping_enabled :: bool
  column_mapping_mode :: string
  liquid_clustering :: bool
  timestamp_ntz :: bool
  check_constraints :: "(string \<times> string) list"
  auto_optimize_enabled :: bool
  auto_optimize_auto_compact :: bool
  auto_optimize_optimize_write :: bool
  data_skipping_enabled :: bool
  data_skipping_num_indexed_cols :: int
  change_data_feed :: bool
  vacuum_retention_hours :: int

definition detect_advanced_features ::
  "(string \<times> string) list \<Rightarrow> Protocol \<Rightarrow> py_error + advanced_features" where
  "detect_advanced_features config protocol =
     (let writer = (case protocol_writer_features protocol of None \<Rightarrow> [] | Some fs \<Rightarrow> fs);
          column_mapping_mode = dict_get config ''delta.columnMapping.mode'' ''none'';
          check_constraints = filter (\<lambda>(k, v). startswith k ''delta.constraints.'') config;
          auto_compact = (dict_get config ''delta.autoOptimize.autoCompact'' ''false'' = ''true'');
          optimize_write = (dict_get config ''delta.autoOptimize.optimizeWrite'' ''false'' = ''true'') in
      bind (py_int (dict_get config ''delta.dataSkippingNumIndexedCols'' ''32'')) (\<lambda>num_indexed_cols.
      bind (py_int (strip (replace ''hours'' []
                      (dict_get config ''delta.deletedFileRetentionDuration'' ''168''))))
        (\<lambda>retention.
      Inr \<lparr>deletion_vectors = (''deletionVectors'' \<in> set writer),
           column_mapping_enabled = (column_mapping_mode \<noteq> ''none''),
           column_mapping_mode = column_mapping_mode,
           liquid_clustering = (map_of config ''clustering'' \<noteq> None),
           timestamp_ntz = (''timestampNtz'' \<in> set writer),
           check_constraints = check_constraints,
           auto_optimize_enabled = (auto_compact \<or> optimize_write),
           auto_optimize_auto_compact = auto_compact,
           auto_optimize_optimize_write = optimize_write,
           data_skipping_enabled = True,
           data_skipping_num_indexed_cols = num_indexed_cols,
           change_data_feed = (dict_get config ''delta.enableChangeDataFeed'' ''false'' = ''true''),
           vacuum_retention_hours = retention\<rparr>)))"

section \<open>inspector.py: write patterns of the timeline\<close>







section \<open>Quantities of the claims\<close>

text \<open>
  The quantities the rules compare with their thresholds, and for each rule the list it
  appends. The lemmas of the next section prove that the rules of the source compute
  exactly these lists.
\<close>

definition small_file :: "FileInfo \<Rightarrow> bool" where
  "small_file f = (real_of_int (size_bytes f) / (1024 * 1024) < SMALL_FILE_THRESHOLD_MB)"

definition pct_small :: "TableStatistics \<Rightarrow> real" where
  "pct_small stats = real (length (filter small_file (files stats))) / real (length (files stats)) * 100"

definition avg_size_mb :: "TableStatistics \<Rightarrow> real" where
  "avg_size_mb stats =
     sum_list (map (\<lambda>f. real_of_int (size_bytes f) / (1024 * 1024)) (files stats)) / real (length (files stats))"

definition file_sizes_out :: "TableStatistics \<Rightarrow> Insight list" where
  "file_sizes_out stats =
     (if files stats = [] then []
      else (if pct_small stats > 50 then [small_files_problem]
            else if pct_small stats > 20 then [some_small_files] else [])
           @ (if avg_size_mb stats < 64 then [suboptimal_average] else []))"

definition file_count_out :: "TableStatistics \<Rightarrow> Insight list" where
  "file_count_out stats = (if num_files stats > 1000 then [high_file_count] else [])"

definition vacuum_out :: "datetime \<Rightarrow> TableStatistics \<Rightarrow> Insight list" where
  "vacuum_out now stats =
     (case last_vacuum stats of
        None \<Rightarrow> if total_versions stats > 10 then [never_vacuumed] else []
      | Some lv \<Rightarrow> if timedelta_days (now - lv) > 28 then [vacuum_overdue] else [])"

definition num_partitions :: "TableStatistics \<Rightarrow> int" where
  "num_partitions stats = int (card (partition_key ` set (files stats)))"

definition avg_files_per_partition :: "TableStatistics \<Rightarrow> real" where
  "avg_files_per_partition stats =
     (if num_partitions stats > 0
      then real_of_int (num_files stats) / real_of_int (num_partitions stats) else 0)"

definition partitioning_out :: "TableStatistics \<Rightarrow> Insight list" where
  "partitioning_out stats =
     (if partition_columns stats = [] then
        (if total_size_bytes stats > 10 * 1024 ^ 3 then [not_partitioned] else [])
      else if num_partitions stats > 1000 \<and> avg_files_per_partition stats < 5
        then [over_partitioned]
      else if num_partitions stats < 10 \<and> avg_files_per_partition stats > 100
        then [under_partitioned]
      else [])"

definition optimization_out :: "TableStatistics \<Rightarrow> Insight list" where
  "optimization_out stats =
     (if total_versions stats > 20 \<and> num_files stats > 1000 then [regular_optimization] else [])"

definition mean_size :: "TableStatistics \<Rightarrow> real" where
  "mean_size stats =
     real_of_int (sum_list (map size_bytes (files stats))) / real (length (files stats))"

definition variance :: "TableStatistics \<Rightarrow> real" where
  "variance stats =
     sum_list (map (\<lambda>s. (real_of_int s - mean_size stats) ^ 2) (map size_bytes (files stats)))
       / real (length (files stats))"

definition coef_variation :: "TableStatistics \<Rightarrow> real" where
  "coef_variation stats =
     (if mean_size stats > 0 then sqrt (variance stats) / mean_size stats else 0)"

definition data_skew_out :: "TableStatistics \<Rightarrow> Insight list" where
  "data_skew_out stats =
     (if length (files stats) < 2 then []
      else if coef_variation stats > 0.5 then [data_skew] else [])"

definition write_patterns_out :: "TableStatistics \<Rightarrow> Insight list" where
  "write_patterns_out stats =
     (if total_versions stats > 10
         \<and> real_of_int (num_files stats) / real_of_int (total_versions stats) < 5
      then [many_small_writes] else [])"

definition rules_out :: "datetime \<Rightarrow> TableStatistics \<Rightarrow> Insight list" where
  "rules_out now stats =
     file_sizes_out stats @ file_count_out stats @ vacuum_out now stats @ partitioning_out stats
       @ optimization_out stats @ data_skew_out stats @ write_patterns_out stats"

text \<open>
  For the write patterns of the timeline: the write operations of a history, the mean
  of their added rows, and the mean gap, in seconds, between the timestamps of consecutive
  write operations in the order of the history (newest first, as
  \<^verbatim>\<open>table.history()\<close> returns it).
\<close>

fun gaps :: "int list \<Rightarrow> int list" where
  "gaps (a # b # rest) = (a - b) # gaps (b # rest)"
| "gaps [a] = []"
| "gaps [] = []"








section \<open>Example tables\<close>

definition example_file :: "int \<Rightarrow> (string \<times> string) list \<Rightarrow> FileInfo" where
  "example_file sz pvalues =
     \<lparr>path = ''part-00000.parquet'', size_bytes = sz, modification_time = 0,
      partition_values = pvalues\<rparr>"

definition example_stats ::
  "FileInfo list \<Rightarrow> string list \<Rightarrow> int \<Rightarrow> datetime option \<Rightarrow> TableStatistics" where
  "example_stats fs pcols versions lv =
     \<lparr>table_path = ''/data/table'', version = versions - 1, num_files = int (length fs),
      total_size_bytes = sum_list (map size_bytes fs), schema = [(''id'', ''int64'')],
      partition_columns = pcols, num_rows = None, files = fs,
      metadata = \<lparr>md_id = None, md_name = None, md_description = None, md_created_time = None\<rparr>,
      total_versions = versions, oldest_version = 0, min_reader_version = 1,
      min_writer_version = 2, reader_features = [], writer_features = [], created_time = None,
      last_operation = None, last_vacuum = lv\<rparr>"

definition day :: int where "day = 86400000000"

definition GiB :: int where "GiB = 1024 * 1024 * 1024"
definition MiB :: int where "MiB = 1024 * 1024"

definition example_skewed :: TableStatistics where
  "example_skewed = example_stats [example_file 0 [], example_file (16 * GiB) []] [] 1 None"

definition example_healthy :: TableStatistics where
  "example_healthy = example_stats [example_file (128 * MiB) [], example_file (128 * MiB) []] [] 1 None"

definition example_tiny :: TableStatistics where
  "example_tiny = example_stats [example_file 300 [], example_file 300 []] [] 1 None"

definition example_mixed :: TableStatistics where
  "example_mixed =
     example_stats [example_file 1 [], example_file (20 * MiB) [], example_file (20 * MiB) []] [] 1 None"

definition example_scenario_d :: TableStatistics where
  "example_scenario_d =
     example_stats
       (replicate 500 (example_file (128 * MiB) [(''region'', ''eu'')])
        @ replicate 500 (example_file (128 * MiB) [(''region'', ''us'')])
        @ replicate 500 (example_file (128 * MiB) [(''region'', ''asia'')]))
       [''region''] 1 None"

definition utc_fromtimestamp :: "int \<Rightarrow> py_error + datetime" where
  "utc_fromtimestamp ms = Inr (ms * 1000)"

definition example_protocol :: Protocol where
  "example_protocol =
     \<lparr>protocol_min_reader_version = 1, protocol_min_writer_version = 2,
      protocol_reader_features = None, protocol_writer_features = None\<rparr>"

definition example_commit :: "string \<Rightarrow> int \<Rightarrow> int \<Rightarrow> int \<Rightarrow> CommitEntry" where
  "example_commit op ts v rows =
     \<lparr>operation = Some op, timestamp = Some ts, commit_version = Some v,
      operationParameters = Some [(''mode'', ''Append'')],
      operationMetrics = Some [(''num_added_files'', 1), (''num_added_rows'', rows)]\<rparr>"

definition example_history :: "CommitEntry list" where
  \<comment> \<open>eleven writes, one minute apart, newest first\<close>
  "example_history =
     map (\<lambda>v. example_commit ''WRITE'' (1700000000000 + v * 60000) v 5)
       [10, 9, 8, 7, 6, 5, 4, 3, 2, 1, 0]"

definition example_add_actions :: add_actions_dict where
  "example_add_actions =
     \<lparr>path_column = [''region=eu/part-0.parquet'', ''part-1.parquet''],
      size_bytes_column = Some [Some 300, None],
      modification_time_column = Some [Some 1700000000000, Some 1700000060000],
      other_columns = [(''partition.region'', [CStr ''eu'', CNone]),
                       (''num_records'', [CInt 5, CInt 5])]\<rparr>"

definition example_table :: DeltaTable where
  "example_table =
     \<lparr>dt_version = 10, dt_schema_dict = [(''id'', ''int64''), (''region'', ''string'')],
      dt_metadata = None, dt_add_actions = example_add_actions,
      dt_protocol = example_protocol, dt_history = example_history\<rparr>"

definition example_config :: "(string \<times> string) list" where
  "example_config = [(''delta.deletedFileRetentionDuration'', ''interval 168 hours'')]"

definition hour :: int where "hour = 3600000000"



section \<open>The rules of the analyzer, characterised\<close>

lemma bind_Inr [simp]: "bind (Inr x) f = f x"
  by (simp add: bind_def)

lemma bind_Inl [simp]: "bind (Inl e) f = Inl e"
  by (simp add: bind_def)

lemma truediv_nonzero [simp]: "b \<noteq> 0 \<Longrightarrow> truediv a b = Inr (a / b)"
  by (simp add: truediv_def)


lemma filter_small_map:
  "filter (\<lambda>s. s < SMALL_FILE_THRESHOLD_MB) (map (\<lambda>f. real_of_int (size_bytes f) / (1024 * 1024)) fs)
   = map (\<lambda>f. real_of_int (size_bytes f) / (1024 * 1024)) (filter small_file fs)"
  by (induction fs) (simp_all add: small_file_def)

lemma analyze_file_sizes_eq:
  "analyze_file_sizes stats insights = Inr (insights @ file_sizes_out stats)"
proof (cases "files stats = []")
  case True
  then show ?thesis by (simp add: analyze_file_sizes_def file_sizes_out_def)
next
  case False
  then have len: "0 < real (length (files stats))" by simp
  show ?thesis
  proof (cases "filter small_file (files stats) = []")
    case True
    then have "pct_small stats = 0" by (simp add: pct_small_def)
    with True False len show ?thesis
      unfolding analyze_file_sizes_def Let_def filter_small_map file_sizes_out_def avg_size_mb_def
      by (simp add: OPTIMAL_FILE_SIZE_MB_def del: filter_empty_conv)
  next
    case nonempty: False
    with False len show ?thesis
      unfolding analyze_file_sizes_def Let_def filter_small_map file_sizes_out_def avg_size_mb_def
        pct_small_def
      by (auto simp add: OPTIMAL_FILE_SIZE_MB_def field_simps simp del: filter_empty_conv)
  qed
qed

lemma analyze_file_count_eq:
  "analyze_file_count stats insights = Inr (insights @ file_count_out stats)"
  by (simp add: analyze_file_count_def file_count_out_def MAX_RECOMMENDED_FILES_def)

lemma analyze_vacuum_history_eq:
  "analyze_vacuum_history now stats insights = Inr (insights @ vacuum_out now stats)"
  by (simp add: analyze_vacuum_history_def vacuum_out_def VACUUM_RECOMMENDATION_DAYS_def Let_def
      split: option.split)

lemma count_partitions_keys:
  "fst ` set (count_partitions fs al) = fst ` set al \<union> partition_key ` set fs"
  by (induction fs arbitrary: al) (auto simp: dom_update)

lemma count_partitions_distinct:
  "distinct (map fst al) \<Longrightarrow> distinct (map fst (count_partitions fs al))"
  by (induction fs arbitrary: al) (simp_all add: distinct_update)

lemma length_count_partitions:
  "length (count_partitions fs []) = card (partition_key ` set fs)"
proof -
  have d: "distinct (map fst (count_partitions fs []))"
    by (rule count_partitions_distinct) simp
  have "length (count_partitions fs []) = length (map fst (count_partitions fs []))" by simp
  also have "\<dots> = card (set (map fst (count_partitions fs [])))"
    using d by (simp only: distinct_card)
  also have "\<dots> = card (partition_key ` set fs)"
    using count_partitions_keys [of fs "[]"] by simp
  finally show ?thesis .
qed

lemma analyze_partitioning_eq:
  "analyze_partitioning stats insights = Inr (insights @ partitioning_out stats)"
proof (cases "files stats = []")
  case True
  then show ?thesis
    by (simp add: analyze_partitioning_def partitioning_out_def num_partitions_def
        avg_files_per_partition_def)
next
  case False
  then have "card (partition_key ` set (files stats)) > 0"
    by (simp add: card_gt_0_iff)
  moreover from this have "count_partitions (files stats) [] \<noteq> []"
    using length_count_partitions [of "files stats"] by auto
  ultimately show ?thesis using False
    by (simp add: analyze_partitioning_def partitioning_out_def num_partitions_def
        avg_files_per_partition_def Let_def length_count_partitions)
qed

lemma analyze_optimization_history_eq:
  "analyze_optimization_history stats insights = Inr (insights @ optimization_out stats)"
  by (simp add: analyze_optimization_history_def optimization_out_def MAX_RECOMMENDED_FILES_def)

lemma analyze_data_skew_eq:
  "analyze_data_skew stats insights = Inr (insights @ data_skew_out stats)"
proof (cases "length (files stats) < 2")
  case True
  then show ?thesis by (simp add: analyze_data_skew_def data_skew_out_def)
next
  case False
  then have len: "real (length (files stats)) \<noteq> 0" by auto
  have m: "0 < mean_size stats \<Longrightarrow> mean_size stats \<noteq> 0" by simp
  from False len show ?thesis
    unfolding analyze_data_skew_def Let_def data_skew_out_def coef_variation_def
      MIN_FILE_SIZE_VARIANCE_def
    by (simp add: mean_size_def [symmetric] variance_def [symmetric] del: map_map)
qed

lemma analyze_write_patterns_eq:
  "analyze_write_patterns stats insights = Inr (insights @ write_patterns_out stats)"
  by (auto simp add: analyze_write_patterns_def write_patterns_out_def)

lemma run_rules_eq: "run_rules now stats = Inr (rules_out now stats)"
  by (simp add: run_rules_def rules_out_def analyze_file_sizes_eq analyze_file_count_eq
      analyze_vacuum_history_eq analyze_partitioning_eq analyze_optimization_history_eq
      analyze_data_skew_eq analyze_write_patterns_eq)

lemma analyze_eq:
  "analyze now stats = Inr (sort_key severity_rank (add_positive_feedback (rules_out now stats)))"
  by (simp add: analyze_def run_rules_eq)


lemmas insight_defs =
  small_files_problem_def some_small_files_def suboptimal_average_def high_file_count_def
  never_vacuumed_def vacuum_overdue_def not_partitioned_def over_partitioned_def
  under_partitioned_def regular_optimization_def data_skew_def many_small_writes_def
  looks_good_def

lemmas out_defs =
  rules_out_def file_sizes_out_def file_count_out_def vacuum_out_def partitioning_out_def
  optimization_out_def data_skew_out_def write_patterns_out_def

lemma file_sizes_out_subset:
  "set (file_sizes_out stats) \<subseteq> {small_files_problem, some_small_files, suboptimal_average}"
  by (auto simp: file_sizes_out_def)

lemma file_count_out_subset: "set (file_count_out stats) \<subseteq> {high_file_count}"
  by (auto simp: file_count_out_def)

lemma vacuum_out_subset: "set (vacuum_out now stats) \<subseteq> {never_vacuumed, vacuum_overdue}"
  by (auto simp: vacuum_out_def split: option.split)

lemma partitioning_out_subset:
  "set (partitioning_out stats) \<subseteq> {not_partitioned, over_partitioned, under_partitioned}"
  by (auto simp: partitioning_out_def)

lemma optimization_out_subset: "set (optimization_out stats) \<subseteq> {regular_optimization}"
  by (auto simp: optimization_out_def)

lemma data_skew_out_subset: "set (data_skew_out stats) \<subseteq> {data_skew}"
  by (auto simp: data_skew_out_def)

lemma write_patterns_out_subset: "set (write_patterns_out stats) \<subseteq> {many_small_writes}"
  by (auto simp: write_patterns_out_def)

lemma rules_out_subset:
  "set (rules_out now stats) \<subseteq>
     {small_files_problem, some_small_files, suboptimal_average, high_file_count, never_vacuumed,
      vacuum_overdue, not_partitioned, over_partitioned, under_partitioned, regular_optimization,
      data_skew, many_small_writes}"
  using file_sizes_out_subset [of stats] file_count_out_subset [of stats]
    vacuum_out_subset [of now stats] partitioning_out_subset [of stats]
    optimization_out_subset [of stats] data_skew_out_subset [of stats]
    write_patterns_out_subset [of stats]
  unfolding rules_out_def set_append by blast

lemma looks_good_not_rule: "looks_good \<notin> set (rules_out now stats)"
  using rules_out_subset [of now stats] by (auto simp: insight_defs)

lemma severity_rank_values:
  "severity_rank small_files_problem = 0" "severity_rank some_small_files = 1"
  "severity_rank suboptimal_average = 1" "severity_rank high_file_count = 1"
  "severity_rank never_vacuumed = 1" "severity_rank vacuum_overdue = 1"
  "severity_rank not_partitioned = 2" "severity_rank over_partitioned = 1"
  "severity_rank under_partitioned = 2" "severity_rank regular_optimization = 2"
  "severity_rank data_skew = 1" "severity_rank many_small_writes = 2"
  "severity_rank looks_good = 3"
  by (simp_all add: severity_rank_def severity_order_def dict_get_def insight_defs)

lemma severity_table:
  "\<forall>x \<in> {small_files_problem, some_small_files, suboptimal_average, high_file_count,
      never_vacuumed, vacuum_overdue, not_partitioned, over_partitioned, under_partitioned,
      regular_optimization, data_skew, many_small_writes, looks_good}.
           (severity x = ''critical'' \<and> severity_rank x = 0)
         \<or> (severity x = ''warning'' \<and> severity_rank x = 1)
         \<or> (severity x = ''info'' \<and> severity_rank x = 2)
         \<or> (severity x = ''good'' \<and> severity_rank x = 3)"
  by (simp add: severity_rank_values) (simp add: insight_defs)

lemma set_add_positive_feedback:
  "set (add_positive_feedback xs) =
     set xs \<union> (if list_ex (\<lambda>i. severity i \<in> set [''critical'', ''warning'']) xs then {} else {looks_good})"
  by (simp add: add_positive_feedback_def)

lemma emits_iff:
  "emits now stats x \<longleftrightarrow>
     x \<in> set (rules_out now stats)
     \<or> (x = looks_good \<and> \<not> list_ex (\<lambda>i. severity i \<in> set [''critical'', ''warning'']) (rules_out now stats))"
  by (auto simp: emits_def analyze_eq set_add_positive_feedback)

lemma mem_file_sizes_out:
  "x \<in> set (file_sizes_out stats) \<longleftrightarrow>
     files stats \<noteq> [] \<and>
     (x = small_files_problem \<and> pct_small stats > 50
      \<or> x = some_small_files \<and> 20 < pct_small stats \<and> pct_small stats \<le> 50
      \<or> x = suboptimal_average \<and> avg_size_mb stats < 64)"
  by (auto simp: file_sizes_out_def)

lemma mem_file_count_out:
  "x \<in> set (file_count_out stats) \<longleftrightarrow> x = high_file_count \<and> num_files stats > 1000"
  by (auto simp: file_count_out_def)

lemma mem_vacuum_out:
  "x \<in> set (vacuum_out now stats) \<longleftrightarrow>
     x = never_vacuumed \<and> last_vacuum stats = None \<and> total_versions stats > 10
     \<or> x = vacuum_overdue \<and> (\<exists>lv. last_vacuum stats = Some lv \<and> timedelta_days (now - lv) > 28)"
  by (auto simp: vacuum_out_def split: option.splits)

lemma mem_partitioning_out:
  "x \<in> set (partitioning_out stats) \<longleftrightarrow>
     x = not_partitioned \<and> partition_columns stats = [] \<and> total_size_bytes stats > 10 * 1024 ^ 3
     \<or> x = over_partitioned \<and> partition_columns stats \<noteq> []
          \<and> num_partitions stats > 1000 \<and> avg_files_per_partition stats < 5
     \<or> x = under_partitioned \<and> partition_columns stats \<noteq> []
          \<and> num_partitions stats < 10 \<and> avg_files_per_partition stats > 100"
  by (auto simp: partitioning_out_def)

lemma mem_optimization_out:
  "x \<in> set (optimization_out stats) \<longleftrightarrow>
     x = regular_optimization \<and> total_versions stats > 20 \<and> num_files stats > 1000"
  by (auto simp: optimization_out_def)

lemma mem_data_skew_out:
  "x \<in> set (data_skew_out stats) \<longleftrightarrow>
     x = data_skew \<and> length (files stats) \<ge> 2 \<and> coef_variation stats > 0.5"
  by (auto simp: data_skew_out_def)

lemma mem_write_patterns_out:
  "x \<in> set (write_patterns_out stats) \<longleftrightarrow>
     x = many_small_writes \<and> total_versions stats > 10
       \<and> real_of_int (num_files stats) / real_of_int (total_versions stats) < 5"
  by (auto simp: write_patterns_out_def)

lemmas mem_out =
  mem_file_sizes_out mem_file_count_out mem_vacuum_out mem_partitioning_out mem_optimization_out
  mem_data_skew_out mem_write_patterns_out

lemma mem_rules_out:
  "x \<in> set (rules_out now stats) \<longleftrightarrow>
     x \<in> set (file_sizes_out stats) \<or> x \<in> set (file_count_out stats)
     \<or> x \<in> set (vacuum_out now stats) \<or> x \<in> set (partitioning_out stats)
     \<or> x \<in> set (optimization_out stats) \<or> x \<in> set (data_skew_out stats)
     \<or> x \<in> set (write_patterns_out stats)"
  by (simp add: rules_out_def)

lemma insights_distinct:
  "distinct [small_files_problem, some_small_files, suboptimal_average, high_file_count,
      never_vacuumed, vacuum_overdue, not_partitioned, over_partitioned, under_partitioned,
      regular_optimization, data_skew, many_small_writes, looks_good]"
  by (simp add: insight_defs)

lemma emits_small_files_problem:
  "emits now stats small_files_problem \<longleftrightarrow> files stats \<noteq> [] \<and> pct_small stats > 50"
  by (simp add: emits_iff mem_rules_out mem_out) (simp add: insight_defs)

lemma emits_data_skew:
  "emits now stats data_skew \<longleftrightarrow> length (files stats) \<ge> 2 \<and> coef_variation stats > 0.5"
  by (simp add: emits_iff mem_rules_out mem_out) (simp add: insight_defs)


lemma example_stats_simps [simp]:
  "files (example_stats fs pcols versions lv) = fs"
  "num_files (example_stats fs pcols versions lv) = int (length fs)"
  "total_size_bytes (example_stats fs pcols versions lv) = sum_list (map size_bytes fs)"
  "partition_columns (example_stats fs pcols versions lv) = pcols"
  "total_versions (example_stats fs pcols versions lv) = versions"
  "last_vacuum (example_stats fs pcols versions lv) = lv"
  by (simp_all add: example_stats_def)

lemma example_file_simps [simp]:
  "size_bytes (example_file sz pvalues) = sz"
  "partition_values (example_file sz pvalues) = pvalues"
  by (simp_all add: example_file_def)

lemma variance_nonneg: "0 \<le> variance stats"
  unfolding variance_def by (intro divide_nonneg_nonneg sum_list_nonneg) auto

lemma coef_variation_gt_half:
  "coef_variation stats > 0.5 \<longleftrightarrow>
     mean_size stats > 0 \<and> 4 * variance stats > (mean_size stats)\<^sup>2"
proof (cases "mean_size stats > 0")
  case False
  then show ?thesis by (simp add: coef_variation_def)
next
  case True
  let ?m = "mean_size stats" and ?v = "variance stats"
  have "sqrt ?v / ?m > 1 / 2 \<longleftrightarrow> sqrt ?v > ?m / 2"
    using True by (simp add: field_simps)
  also have "\<dots> \<longleftrightarrow> sqrt ?v > sqrt ((?m / 2)\<^sup>2)"
    using True by simp
  also have "\<dots> \<longleftrightarrow> ?v > (?m / 2)\<^sup>2"
    by (rule real_sqrt_less_iff)
  also have "\<dots> \<longleftrightarrow> 4 * ?v > ?m\<^sup>2"
    by (simp add: power_divide field_simps)
  finally show ?thesis using True by (simp add: coef_variation_def)
qed

lemmas quantity_defs =
  pct_small_def small_file_def avg_size_mb_def SMALL_FILE_THRESHOLD_MB_def mean_size_def
  variance_def num_partitions_def avg_files_per_partition_def MiB_def GiB_def

lemma data_skew_out_eval:
  "data_skew_out stats =
     (if length (files stats) < 2 then []
      else if mean_size stats > 0 \<and> 4 * variance stats > (mean_size stats)\<^sup>2
      then [data_skew] else [])"
  using coef_variation_gt_half [of stats] by (simp add: data_skew_out_def)

lemmas out_eval =
  rules_out_def file_sizes_out_def file_count_out_def vacuum_out_def partitioning_out_def
  optimization_out_def data_skew_out_eval write_patterns_out_def

lemma rules_out_example_skewed:
  "rules_out now example_skewed = [some_small_files, not_partitioned, data_skew]"
  by (simp add: out_eval example_skewed_def quantity_defs)

lemma rules_out_example_healthy: "rules_out now example_healthy = []"
  by (simp add: out_eval example_healthy_def quantity_defs)

lemma rules_out_example_tiny:
  "rules_out now example_tiny = [small_files_problem, suboptimal_average]"
  by (simp add: out_eval example_tiny_def quantity_defs)

lemma analyze_example_skewed:
  "analyze now example_skewed = Inr [some_small_files, data_skew, not_partitioned]"
  by (simp add: analyze_eq rules_out_example_skewed add_positive_feedback_def severity_rank_values)
     (simp add: insight_defs)

lemma analyze_example_healthy: "analyze now example_healthy = Inr [looks_good]"
  by (simp add: analyze_eq rules_out_example_healthy add_positive_feedback_def)

lemma num_partitions_scenario_d: "num_partitions example_scenario_d = 3"
  by (simp add: example_scenario_d_def num_partitions_def partition_key_def)

lemma sort_eq_iff_mset: "sort xs = sort ys \<longleftrightarrow> mset xs = mset ys"
proof
  assume "sort xs = sort ys"
  then have "mset (sort xs) = mset (sort ys)" by simp
  then show "mset xs = mset ys" by simp
next
  assume "mset xs = mset ys"
  then have "mset (sort ys) = mset xs" by simp
  then show "sort xs = sort ys" by (rule properties_for_sort) simp
qed

lemma partition_key_eq_iff:
  assumes "distinct (map fst (partition_values f))" and "distinct (map fst (partition_values g))"
  shows "partition_key f = partition_key g \<longleftrightarrow>
         map_of (partition_values f) = map_of (partition_values g)"
proof -
  from assms have d: "distinct (partition_values f)" "distinct (partition_values g)"
    by (simp_all add: distinct_map)
  have "partition_key f = partition_key g \<longleftrightarrow> mset (partition_values f) = mset (partition_values g)"
    by (simp add: partition_key_def sort_eq_iff_mset)
  also have "\<dots> \<longleftrightarrow> set (partition_values f) = set (partition_values g)"
    using d by (simp add: set_eq_iff_mset_eq_distinct)
  also have "\<dots> \<longleftrightarrow> map_of (partition_values f) = map_of (partition_values g)"
    using assms by (simp add: map_of_inject_set)
  finally show ?thesis .
qed

lemma avg_files_per_partition_consistent:
  "num_files stats = int (length (files stats)) \<Longrightarrow> files stats \<noteq> [] \<Longrightarrow>
     avg_files_per_partition stats
       = real (length (files stats)) / real (card (partition_key ` set (files stats)))"
  by (simp add: avg_files_per_partition_def num_partitions_def card_gt_0_iff)

lemma emits_vacuum_overdue:
  "emits now stats vacuum_overdue \<longleftrightarrow>
     (\<exists>lv. last_vacuum stats = Some lv \<and> timedelta_days (now - lv) > 28)"
  by (simp add: emits_iff mem_rules_out mem_out) (simp add: insight_defs)

lemma int_div_gt_iff:
  fixes d k n :: int
  assumes "0 < k"
  shows "n < d div k \<longleftrightarrow> (n + 1) * k \<le> d"
proof
  assume "n < d div k"
  then have "n + 1 \<le> d div k" by simp
  then have "(n + 1) * k \<le> (d div k) * k"
    using assms by (simp add: mult_right_mono)
  also have "\<dots> \<le> d"
  proof -
    have "k * (d div k) + d mod k = d" by (rule mult_div_mod_eq)
    moreover have "0 \<le> d mod k" using assms by (rule pos_mod_sign)
    ultimately have "k * (d div k) \<le> d" by linarith
    then show ?thesis by (simp add: mult.commute)
  qed
  finally show "(n + 1) * k \<le> d" .
next
  assume "(n + 1) * k \<le> d"
  then have "((n + 1) * k) div k \<le> d div k"
    using assms by (rule zdiv_mono1)
  then show "n < d div k" using assms by simp
qed

lemma timedelta_days_gt_28: "timedelta_days d > 28 \<longleftrightarrow> d \<ge> 29 * 86400000000"
  unfolding timedelta_days_def using int_div_gt_iff [of 86400000000 28 d] by simp

section \<open>The claims about the analyzer\<close>

subsection \<open>Dependence on the clock\<close>

lemma vacuum_out_clock:
  "(\<forall>lv. last_vacuum stats = Some lv \<longrightarrow>
       timedelta_days (now1 - lv) \<le> 28 \<and> timedelta_days (now2 - lv) \<le> 28)
   \<Longrightarrow> vacuum_out now1 stats = vacuum_out now2 stats"
  by (auto simp: vacuum_out_def split: option.splits)

lemma rules_out_empty_files:
  "rules_out now (example_stats [] [] 1 lv) = vacuum_out now (example_stats [] [] 1 lv)"
  by (simp add: out_defs)

text \<open>
  C1, as amended. \<^verbatim>\<open>analyze\<close> is a function of the statistics and of the reading of
  the wall clock that \<^verbatim>\<open>_analyze_vacuum_history\<close> takes with \<^verbatim>\<open>datetime.now()\<close>:
  the days since the last vacuum come from that reading, not from a value the caller
  supplies. Two runs on the same statistics return equal lists whenever
  \<^verbatim>\<open>last_vacuum\<close> is absent, or at most 28 whole days lie between it and either
  reading of the clock.
\<close>

theorem analyze_clock_independent:
  assumes "\<forall>lv. last_vacuum stats = Some lv \<longrightarrow>
             timedelta_days (now1 - lv) \<le> 28 \<and> timedelta_days (now2 - lv) \<le> 28"
  shows "analyze now1 stats = analyze now2 stats"
  using vacuum_out_clock [OF assms] by (simp add: analyze_eq rules_out_def)

theorem analyze_clock_independent_witness:
  "analyze day (example_stats [] [] 1 (Some 0)) = analyze (2 * day) (example_stats [] [] 1 (Some 0))"
  using analyze_clock_independent [of "example_stats [] [] 1 (Some 0)" day "2 * day"]
  by (simp add: timedelta_days_def day_def)

text \<open>
  The claim as stated fails: the same statistics, with a vacuum at time 0, analyzed
  when the clock reads 0 and when it reads 29 days, give different lists.
\<close>

theorem analyze_clock_counterexample:
  "analyze 0 (example_stats [] [] 1 (Some 0)) \<noteq> analyze (29 * day) (example_stats [] [] 1 (Some 0))"
  by (simp add: analyze_eq rules_out_empty_files vacuum_out_def timedelta_days_def day_def
      add_positive_feedback_def) (simp add: insight_defs)

subsection \<open>Order of the result\<close>

text \<open>
  C3. For every statistics value \<^verbatim>\<open>analyze\<close> returns; the returned list is sorted by
  severity rank in non-decreasing order (critical 0, warning 1, info 2, good 3, and every
  returned insight has one of these); the sort is stable: for each rank, the insights
  of that rank keep the order in which the rules and the fallback appended them; and the
  result has exactly the insights that were appended, with their multiplicities, so
  that none a rule generated is dropped.
\<close>

theorem analyze_sorted_stable_complete:
  "\<exists>rules out. run_rules now stats = Inr rules \<and> analyze now stats = Inr out
     \<and> sorted (map severity_rank out)
     \<and> (\<forall>k. filter (\<lambda>x. severity_rank x = k) out
             = filter (\<lambda>x. severity_rank x = k) (add_positive_feedback rules))
     \<and> mset out = mset (add_positive_feedback rules)
     \<and> mset rules \<subseteq># mset out
     \<and> (\<forall>x \<in> set out.
           (severity x = ''critical'' \<and> severity_rank x = 0)
         \<or> (severity x = ''warning'' \<and> severity_rank x = 1)
         \<or> (severity x = ''info'' \<and> severity_rank x = 2)
         \<or> (severity x = ''good'' \<and> severity_rank x = 3))"
proof -
  let ?rules = "rules_out now stats"
  let ?out = "sort_key severity_rank (add_positive_feedback ?rules)"
  have 1: "sorted (map severity_rank ?out)" by (rule sorted_sort_key)
  have 2: "\<forall>k. filter (\<lambda>x. severity_rank x = k) ?out
             = filter (\<lambda>x. severity_rank x = k) (add_positive_feedback ?rules)"
    by (simp add: sort_key_stable)
  have 3: "mset ?out = mset (add_positive_feedback ?rules)" by simp
  have 4: "mset ?rules \<subseteq># mset ?out"
    by (simp add: add_positive_feedback_def)
  have 5: "\<forall>x \<in> set ?out.
           (severity x = ''critical'' \<and> severity_rank x = 0)
         \<or> (severity x = ''warning'' \<and> severity_rank x = 1)
         \<or> (severity x = ''info'' \<and> severity_rank x = 2)
         \<or> (severity x = ''good'' \<and> severity_rank x = 3)"
  proof
    fix x assume "x \<in> set ?out"
    then have "x \<in> set ?rules \<or> x = looks_good"
      by (auto simp: set_add_positive_feedback split: if_splits)
    with rules_out_subset [of now stats] have "x \<in> {small_files_problem, some_small_files, suboptimal_average, high_file_count, never_vacuumed,
      vacuum_overdue, not_partitioned, over_partitioned, under_partitioned, regular_optimization,
      data_skew, many_small_writes, looks_good}" by auto
    with severity_table show "(severity x = ''critical'' \<and> severity_rank x = 0)
         \<or> (severity x = ''warning'' \<and> severity_rank x = 1)
         \<or> (severity x = ''info'' \<and> severity_rank x = 2)
         \<or> (severity x = ''good'' \<and> severity_rank x = 3)"
      by (rule bspec)
  qed
  from 1 2 3 4 5 show ?thesis
    unfolding run_rules_eq analyze_eq by blast
qed

theorem analyze_sorted_stable_complete_witness:
  "run_rules 0 example_skewed = Inr [some_small_files, not_partitioned, data_skew]
   \<and> analyze 0 example_skewed = Inr [some_small_files, data_skew, not_partitioned]
   \<and> sorted (map severity_rank [some_small_files, data_skew, not_partitioned])
   \<and> mset [some_small_files, not_partitioned, data_skew]
        \<subseteq># mset [some_small_files, data_skew, not_partitioned]"
proof -
  from analyze_sorted_stable_complete [of 0 example_skewed]
  obtain rules out where r: "run_rules 0 example_skewed = Inr rules"
    and a: "analyze 0 example_skewed = Inr out"
    and s: "sorted (map severity_rank out)"
    and m: "mset rules \<subseteq># mset out"
    by blast
  from r have r': "rules = [some_small_files, not_partitioned, data_skew]"
    by (simp add: run_rules_eq rules_out_example_skewed)
  from a have a': "out = [some_small_files, data_skew, not_partitioned]"
    by (simp add: analyze_example_skewed)
  from r a s m show ?thesis unfolding r' a' by blast
qed

subsection \<open>The fallback\<close>

text \<open>
  C4. For every statistics value, the list \<^verbatim>\<open>analyze\<close> returns contains the good
  insight "Table Configuration Looks Good" if and only if no rule produced an insight
  of severity critical or warning. It occurs once in that case and not at all otherwise;
  no rule produces it: it is appended after the seven rules have run, and
  \<^verbatim>\<open>analyze\<close> returns a list in both cases.
\<close>

theorem looks_good_fallback:
  "\<exists>rules out. run_rules now stats = Inr rules \<and> analyze now stats = Inr out
     \<and> (looks_good \<in> set out \<longleftrightarrow>
            \<not> (\<exists>i \<in> set rules. severity i = ''critical'' \<or> severity i = ''warning''))
     \<and> count_list out looks_good =
            (if \<exists>i \<in> set rules. severity i = ''critical'' \<or> severity i = ''warning'' then 0 else 1)
     \<and> looks_good \<notin> set rules"
proof -
  let ?rules = "rules_out now stats"
  let ?out = "sort_key severity_rank (add_positive_feedback ?rules)"
  have ex: "list_ex (\<lambda>i. severity i \<in> set [''critical'', ''warning'']) ?rules
      \<longleftrightarrow> (\<exists>i \<in> set ?rules. severity i = ''critical'' \<or> severity i = ''warning'')"
    by (auto simp: list_ex_iff)
  have c0: "count_list ?rules looks_good = 0"
    using looks_good_not_rule [of now stats] by (simp add: count_list_0_iff)
  have "count_list ?out looks_good = count (mset ?out) looks_good"
    by (simp only: count_mset)
  also have "\<dots> = count (mset (add_positive_feedback ?rules)) looks_good" by simp
  also have "\<dots> = count_list (add_positive_feedback ?rules) looks_good"
    by (simp only: count_mset)
  also have "\<dots> = (if \<exists>i \<in> set ?rules. severity i = ''critical'' \<or> severity i = ''warning'' then 0 else 1)"
    using c0 ex by (simp add: add_positive_feedback_def)
  finally have cnt: "count_list ?out looks_good =
     (if \<exists>i \<in> set ?rules. severity i = ''critical'' \<or> severity i = ''warning'' then 0 else 1)" .
  have mem: "looks_good \<in> set ?out \<longleftrightarrow>
            \<not> (\<exists>i \<in> set ?rules. severity i = ''critical'' \<or> severity i = ''warning'')"
    using looks_good_not_rule [of now stats] ex by (simp add: set_add_positive_feedback)
  from cnt mem looks_good_not_rule [of now stats] show ?thesis
    unfolding run_rules_eq analyze_eq by blast
qed

theorem looks_good_fallback_witness:
  "run_rules 0 example_healthy = Inr [] \<and> analyze 0 example_healthy = Inr [looks_good]
   \<and> count_list [looks_good] looks_good = 1
   \<and> run_rules 0 example_skewed = Inr [some_small_files, not_partitioned, data_skew]
   \<and> looks_good \<notin> set [some_small_files, data_skew, not_partitioned]"
proof -
  from looks_good_fallback [of 0 example_healthy]
  obtain rules out where r: "run_rules 0 example_healthy = Inr rules"
    and a: "analyze 0 example_healthy = Inr out"
    and c: "count_list out looks_good =
            (if \<exists>i \<in> set rules. severity i = ''critical'' \<or> severity i = ''warning'' then 0 else 1)"
    by blast
  from r have r': "rules = []" by (simp add: run_rules_eq rules_out_example_healthy)
  from a have a': "out = [looks_good]" by (simp add: analyze_example_healthy)
  from looks_good_fallback [of 0 example_skewed]
  obtain rules2 out2 where r2: "run_rules 0 example_skewed = Inr rules2"
    and a2: "analyze 0 example_skewed = Inr out2"
    and g: "looks_good \<in> set out2 \<longleftrightarrow>
            \<not> (\<exists>i \<in> set rules2. severity i = ''critical'' \<or> severity i = ''warning'')"
    by blast
  from r2 have r2': "rules2 = [some_small_files, not_partitioned, data_skew]"
    by (simp add: run_rules_eq rules_out_example_skewed)
  from a2 have a2': "out2 = [some_small_files, data_skew, not_partitioned]"
    by (simp add: analyze_example_skewed)
  have w: "severity some_small_files = ''warning''" by (simp add: some_small_files_def)
  from g w have n: "looks_good \<notin> set [some_small_files, data_skew, not_partitioned]"
    unfolding r2' a2' by simp
  from c have c': "count_list [looks_good] looks_good = 1" unfolding r' a' by simp
  from r a r2 c' n show ?thesis unfolding r' a' r2' by blast
qed

subsection \<open>File sizes\<close>

text \<open>
  C5. For every statistics value with a non-empty file list: the critical insight
  "Small Files Problem Detected" is emitted iff more than 50 percent of the files are
  smaller than 10 MB (\<open>size_bytes / 2\<^sup>2\<^sup>0 < 10\<close>); the warning "Some Small Files
  Detected" iff that percentage is above 20 and at most 50; and, independently, the
  warning "Suboptimal Average File Size" iff the mean file size is below 64 MB, half of
  \<^verbatim>\<open>OPTIMAL_FILE_SIZE_MB\<close>. The last one occurs together with either of the first
  two: there are tables for both.
\<close>

theorem file_size_rules:
  assumes "files stats \<noteq> []"
  shows "(emits now stats small_files_problem \<longleftrightarrow> pct_small stats > 50)
     \<and> (emits now stats some_small_files \<longleftrightarrow> 20 < pct_small stats \<and> pct_small stats \<le> 50)
     \<and> (emits now stats suboptimal_average \<longleftrightarrow> avg_size_mb stats < OPTIMAL_FILE_SIZE_MB / 2)
     \<and> (\<exists>s. files s \<noteq> [] \<and> emits now s small_files_problem \<and> emits now s suboptimal_average)
     \<and> (\<exists>s. files s \<noteq> [] \<and> emits now s some_small_files \<and> emits now s suboptimal_average)"
proof -
  have crit: "emits now s small_files_problem \<longleftrightarrow> files s \<noteq> [] \<and> pct_small s > 50" for s
    by (rule emits_small_files_problem)
  have some: "emits now s some_small_files \<longleftrightarrow>
      files s \<noteq> [] \<and> 20 < pct_small s \<and> pct_small s \<le> 50" for s
    by (simp add: emits_iff mem_rules_out mem_out) (simp add: insight_defs)
  have avg: "emits now s suboptimal_average \<longleftrightarrow> files s \<noteq> [] \<and> avg_size_mb s < 64" for s
    by (simp add: emits_iff mem_rules_out mem_out) (simp add: insight_defs)
  have 1: "files example_tiny \<noteq> [] \<and> emits now example_tiny small_files_problem
      \<and> emits now example_tiny suboptimal_average"
    unfolding crit avg by (simp add: example_tiny_def quantity_defs)
  have 2: "files example_mixed \<noteq> [] \<and> emits now example_mixed some_small_files
      \<and> emits now example_mixed suboptimal_average"
    unfolding some avg by (simp add: example_mixed_def quantity_defs)
  from assms 1 2 show ?thesis
    unfolding crit some avg by (auto simp: OPTIMAL_FILE_SIZE_MB_def)
qed

theorem file_size_rules_witness:
  "files example_mixed \<noteq> []
   \<and> \<not> emits 0 example_mixed small_files_problem
   \<and> emits 0 example_mixed some_small_files
   \<and> emits 0 example_mixed suboptimal_average
   \<and> pct_small example_mixed = 100 / 3"
proof -
  have f: "files example_mixed \<noteq> []" by (simp add: example_mixed_def)
  have p: "pct_small example_mixed = 100 / 3" by (simp add: example_mixed_def quantity_defs)
  have a: "avg_size_mb example_mixed < OPTIMAL_FILE_SIZE_MB / 2"
    by (simp add: example_mixed_def quantity_defs OPTIMAL_FILE_SIZE_MB_def)
  from file_size_rules [OF f, of 0] p a f show ?thesis by simp
qed

subsection \<open>Partitioning\<close>

text \<open>
  C6. For every statistics value: on an unpartitioned table the info "Table Not
  Partitioned" is emitted iff the total size exceeds 10 GiB. On a partitioned table,
  with the files grouped by their partition values (\<open>num_partitions\<close> counts the distinct
  keys, \<open>avg_files_per_partition\<close> is \<^verbatim>\<open>num_files\<close> over that count, which is the
  number of files over the number of partitions when \<^verbatim>\<open>num_files\<close> is the length of
  the file list), the warning
  "Over-Partitioned Table" is emitted iff there are more than 1000 partitions and fewer
  than 5 files per partition on average, and the info "Under-Partitioned Table" iff there
  are fewer than 10 partitions and more than 100 files per partition on average. With
  1500 files in 3 partitions the over-partition warning is not emitted and the warning
  "High File Count" is.
\<close>

theorem partitioning_rules:
  "(partition_columns stats = [] \<longrightarrow>
      (emits now stats not_partitioned \<longleftrightarrow> total_size_bytes stats > 10 * 1024 * 1024 * 1024))
   \<and> (partition_columns stats \<noteq> [] \<longrightarrow>
      (emits now stats over_partitioned \<longleftrightarrow>
         num_partitions stats > 1000 \<and> avg_files_per_partition stats < 5)
      \<and> (emits now stats under_partitioned \<longleftrightarrow>
         num_partitions stats < 10 \<and> avg_files_per_partition stats > 100))
   \<and> (num_files stats = int (length (files stats)) \<and> files stats \<noteq> [] \<longrightarrow>
      avg_files_per_partition stats
        = real (length (files stats)) / real (card (partition_key ` set (files stats))))
   \<and> (num_files stats = 1500 \<and> length (files stats) = 1500 \<and> num_partitions stats = 3 \<longrightarrow>
      \<not> emits now stats over_partitioned \<and> emits now stats high_file_count)"
proof -
  have np: "emits now stats not_partitioned \<longleftrightarrow>
      partition_columns stats = [] \<and> total_size_bytes stats > 10 * 1024 ^ 3"
    by (simp add: emits_iff mem_rules_out mem_out) (simp add: insight_defs)
  have over: "emits now stats over_partitioned \<longleftrightarrow> partition_columns stats \<noteq> []
      \<and> num_partitions stats > 1000 \<and> avg_files_per_partition stats < 5"
    by (simp add: emits_iff mem_rules_out mem_out) (simp add: insight_defs)
  have under: "emits now stats under_partitioned \<longleftrightarrow> partition_columns stats \<noteq> []
      \<and> num_partitions stats < 10 \<and> avg_files_per_partition stats > 100"
    by (simp add: emits_iff mem_rules_out mem_out) (simp add: insight_defs)
  have high: "emits now stats high_file_count \<longleftrightarrow> num_files stats > 1000"
    by (simp add: emits_iff mem_rules_out mem_out) (simp add: insight_defs)
  have avg: "num_files stats = int (length (files stats)) \<and> files stats \<noteq> [] \<longrightarrow>
      avg_files_per_partition stats
        = real (length (files stats)) / real (card (partition_key ` set (files stats)))"
    by (simp add: avg_files_per_partition_consistent)
  have rest: "(partition_columns stats = [] \<longrightarrow>
      (emits now stats not_partitioned \<longleftrightarrow> total_size_bytes stats > 10 * 1024 * 1024 * 1024))
   \<and> (partition_columns stats \<noteq> [] \<longrightarrow>
      (emits now stats over_partitioned \<longleftrightarrow>
         num_partitions stats > 1000 \<and> avg_files_per_partition stats < 5)
      \<and> (emits now stats under_partitioned \<longleftrightarrow>
         num_partitions stats < 10 \<and> avg_files_per_partition stats > 100))
   \<and> (num_files stats = 1500 \<and> length (files stats) = 1500 \<and> num_partitions stats = 3 \<longrightarrow>
      \<not> emits now stats over_partitioned \<and> emits now stats high_file_count)"
    unfolding np over under high by auto
  from avg rest show ?thesis by blast
qed

theorem partitioning_rules_witness:
  "partition_columns example_scenario_d \<noteq> []
   \<and> num_files example_scenario_d = 1500 \<and> num_partitions example_scenario_d = 3
   \<and> avg_files_per_partition example_scenario_d = 500
   \<and> \<not> emits 0 example_scenario_d over_partitioned
   \<and> emits 0 example_scenario_d under_partitioned
   \<and> emits 0 example_scenario_d high_file_count
   \<and> partition_columns example_skewed = []
   \<and> emits 0 example_skewed not_partitioned"
proof -
  have a: "partition_columns example_scenario_d \<noteq> []" "num_files example_scenario_d = 1500"
    "length (files example_scenario_d) = 1500"
    by (simp_all add: example_scenario_d_def)
  have b: "avg_files_per_partition example_scenario_d = 500"
    by (simp add: avg_files_per_partition_def num_partitions_scenario_d a)
  have c: "partition_columns example_skewed = []"
    "total_size_bytes example_skewed > 10 * 1024 * 1024 * 1024"
    by (simp_all add: example_skewed_def GiB_def)
  from partitioning_rules [of example_scenario_d 0] partitioning_rules [of example_skewed 0]
    a b c num_partitions_scenario_d
  show ?thesis by simp
qed

subsection \<open>Data skew on empty files\<close>

text \<open>
  C10. For every statistics value with at least two files, all of size 0: the mean size
  is 0, the guard of the division makes the coefficient of variation 0, the data-skew
  rule appends nothing, "Data Skew Detected" is not emitted, and \<^verbatim>\<open>analyze\<close> does not
  raise a division by zero.
\<close>

theorem zero_sizes_no_skew:
  assumes "length (files stats) \<ge> 2" and "\<forall>f \<in> set (files stats). size_bytes f = 0"
  shows "coef_variation stats = 0 \<and> analyze_data_skew stats insights = Inr insights
         \<and> \<not> emits now stats data_skew \<and> analyze now stats \<noteq> Inl ZeroDivisionError"
proof -
  from assms(2) have "map size_bytes (files stats) = map (\<lambda>f. 0) (files stats)"
    by (intro map_cong) simp_all
  then have "sum_list (map size_bytes (files stats)) = 0"
    by (simp only: sum_list_0)
  then have "mean_size stats = 0" by (simp add: mean_size_def)
  then have cv: "coef_variation stats = 0" by (simp add: coef_variation_def)
  then have "data_skew_out stats = []" by (simp add: data_skew_out_def)
  then have "analyze_data_skew stats insights = Inr insights"
    by (simp add: analyze_data_skew_eq)
  moreover have "\<not> emits now stats data_skew" using cv by (simp add: emits_data_skew)
  moreover have "analyze now stats \<noteq> Inl ZeroDivisionError" by (simp add: analyze_eq)
  ultimately show ?thesis using cv by simp
qed

theorem zero_sizes_no_skew_witness:
  "coef_variation (example_stats [example_file 0 [], example_file 0 []] [] 1 None) = 0
   \<and> analyze_data_skew (example_stats [example_file 0 [], example_file 0 []] [] 1 None) [] = Inr []
   \<and> \<not> emits 0 (example_stats [example_file 0 [], example_file 0 []] [] 1 None) data_skew"
  using zero_sizes_no_skew [of "example_stats [example_file 0 [], example_file 0 []] [] 1 None" "[]" 0]
  by simp

section \<open>The inspector, characterised\<close>

lemma bind_eq_Inr: "bind m f = Inr y \<longleftrightarrow> (\<exists>x. m = Inr x \<and> f x = Inr y)"
  by (cases m) (simp_all add: bind_def)

lemma collect_files_sum:
  "collect_files fromtimestamp d idxs acc = Inr acc' \<Longrightarrow>
     fst acc' - sum_list (map size_bytes (snd acc')) = fst acc - sum_list (map size_bytes (snd acc))"
proof (induction idxs arbitrary: acc)
  case Nil
  then show ?case by simp
next
  case (Cons i rest)
  from Cons.prems obtain sz fi where
    rec: "collect_files fromtimestamp d rest (fst acc + sz, snd acc @ [fi]) = Inr acc'"
    and sz: "size_bytes fi = sz"
    by (auto simp: bind_eq_Inr Let_def)
  from Cons.IH [OF rec] sz show ?case by simp
qed

lemma collect_files_length:
  "collect_files fromtimestamp d idxs acc = Inr acc' \<Longrightarrow>
     length (snd acc') = length (snd acc) + length idxs"
proof (induction idxs arbitrary: acc)
  case Nil
  then show ?case by simp
next
  case (Cons i rest)
  from Cons.prems obtain sz fi where
    rec: "collect_files fromtimestamp d rest (fst acc + sz, snd acc @ [fi]) = Inr acc'"
    by (auto simp: bind_eq_Inr Let_def)
  from Cons.IH [OF rec] show ?case by simp
qed

lemma get_statistics_files:
  assumes "get_statistics fromtimestamp p table = Inr stats"
  shows "\<exists>total fs.
           collect_files fromtimestamp (dt_add_actions table)
             [0..<length (path_column (dt_add_actions table))] (0, []) = Inr (total, fs)
           \<and> files stats = fs \<and> total_size_bytes stats = total
           \<and> num_files stats = int (length fs)"
  using assms
  by (auto simp: get_statistics_def Let_def bind_eq_Inr split: prod.splits)

lemma get_statistics_total_versions:
  assumes "get_statistics fromtimestamp p table = Inr stats"
  shows "total_versions stats = int (length (dt_history table))"
  using assms
  by (auto simp: get_statistics_def Let_def bind_eq_Inr split: prod.splits)

lemma get_statistics_no_vacuum:
  assumes "get_statistics fromtimestamp p table = Inr stats"
    and "\<forall>e \<in> set (dt_history table). operation e \<noteq> Some ''VACUUM''"
  shows "last_vacuum stats = None"
proof -
  from assms(2) have "find (\<lambda>entry. operation entry = Some ''VACUUM'') (dt_history table) = None"
    by (simp add: find_None_iff)
  with assms(1) show ?thesis
    by (auto simp: get_statistics_def Let_def bind_eq_Inr split: prod.splits)
qed

lemma example_history_length: "length example_history = 11"
  by (simp add: example_history_def)

lemma example_history_no_vacuum:
  "\<forall>e \<in> set example_history. operation e \<noteq> Some ''VACUUM''"
  by (simp add: example_history_def example_commit_def)

lemma example_history_nonempty: "example_history \<noteq> []"
  using example_history_length by auto

lemma startswith_partition [simp]:
  "startswith ''partition.region'' ''partition.''" "\<not> startswith ''num_records'' ''partition.''"
  by (simp_all add: startswith_def)

lemma replace_partition_region [simp]: "replace ''partition.'' [] ''partition.region'' = ''region''"
  by code_simp

lemma collect_files_example:
  "collect_files utc_fromtimestamp example_add_actions [0..<2] (0, []) =
     Inr (300, [\<lparr>path = ''region=eu/part-0.parquet'', size_bytes = 300,
                  modification_time = 1700000000000000,
                  partition_values = [(''region'', ''eu'')]\<rparr>,
                \<lparr>path = ''part-1.parquet'', size_bytes = 0,
                  modification_time = 1700000060000000, partition_values = []\<rparr>])"
  by (simp add: example_add_actions_def utc_fromtimestamp_def index_def str_cell_def
      upt_conv_Cons numeral_2_eq_2 bind_def)

lemma get_statistics_example:
  "\<exists>stats. get_statistics utc_fromtimestamp ''/data/table'' example_table = Inr stats"
proof -
  have l: "length (path_column example_add_actions) = 2"
    by (simp add: example_add_actions_def)
  have f: "find (\<lambda>entry. operation entry = Some ''VACUUM'') example_history = None"
    using example_history_no_vacuum by (simp add: find_None_iff)
  have d: "dt_add_actions example_table = example_add_actions"
    "dt_history example_table = example_history" "dt_metadata example_table = None"
    by (simp_all add: example_table_def)
  show ?thesis
    unfolding get_statistics_def Let_def d l collect_files_example f
    by (simp add: utc_fromtimestamp_def bind_def split: list.split)
qed



lemma sum_gaps: "ts \<noteq> [] \<Longrightarrow> sum_list (gaps ts) = hd ts - last ts"
  by (induction ts rule: gaps.induct) simp_all





lemma py_int_error: "py_int s = Inl e \<Longrightarrow> e = ValueError"
  by (auto simp: py_int_def Let_def split: option.splits)

lemma py_int_32: "py_int ''32'' = Inr 32"
  by code_simp

lemma py_int_168: "py_int (strip (replace ''hours'' [] ''168'')) = Inr 168"
  by code_simp

lemma bind_eq_Inl: "bind m f = Inl e \<longleftrightarrow> m = Inl e \<or> (\<exists>x. m = Inr x \<and> f x = Inl e)"
  by (cases m) (simp_all add: bind_def)






section \<open>The claims about the inspector\<close>

subsection \<open>Totals of the statistics\<close>

text \<open>
  C8. For every statistics value that \<^verbatim>\<open>get_statistics\<close> returns,
  \<^verbatim>\<open>total_size_bytes\<close> is the exact integer sum of \<^verbatim>\<open>size_bytes\<close> over the
  entries of \<^verbatim>\<open>files\<close>, and \<^verbatim>\<open>num_files\<close> is the length of \<^verbatim>\<open>files\<close>,
  which has one entry for each entry of the path column.
\<close>

theorem statistics_totals:
  assumes "get_statistics fromtimestamp p table = Inr stats"
  shows "total_size_bytes stats = sum_list (map size_bytes (files stats))
       \<and> num_files stats = int (length (files stats))
       \<and> length (files stats) = length (path_column (dt_add_actions table))"
proof -
  from get_statistics_files [OF assms] obtain total fs where
    c: "collect_files fromtimestamp (dt_add_actions table)
          [0..<length (path_column (dt_add_actions table))] (0, []) = Inr (total, fs)"
    and f: "files stats = fs" "total_size_bytes stats = total" "num_files stats = int (length fs)"
    by blast
  from collect_files_sum [OF c] collect_files_length [OF c] f show ?thesis by simp
qed

theorem statistics_totals_witness:
  "\<exists>stats. get_statistics utc_fromtimestamp ''/data/table'' example_table = Inr stats
     \<and> total_size_bytes stats = sum_list (map size_bytes (files stats))
     \<and> num_files stats = 2 \<and> length (files stats) = 2"
proof -
  from get_statistics_example obtain stats where
    s: "get_statistics utc_fromtimestamp ''/data/table'' example_table = Inr stats" ..
  have "length (path_column (dt_add_actions example_table)) = 2"
    by (simp add: example_table_def example_add_actions_def)
  with statistics_totals [OF s] s show ?thesis by auto
qed

subsection \<open>Vacuum\<close>

text \<open>
  C7, as amended. For every statistics value: the warning "Table Has Never Been
  Vacuumed" is emitted iff \<^verbatim>\<open>last_vacuum\<close> is absent and \<^verbatim>\<open>total_versions\<close>
  exceeds 10; the warning "Vacuum Overdue" is emitted iff \<^verbatim>\<open>last_vacuum\<close> is
  present and the whole days from it to the reading of the clock, the \<^verbatim>\<open>days\<close> field
  of the difference, exceed 28, four times \<^verbatim>\<open>VACUUM_RECOMMENDATION_DAYS\<close>: that is,
  iff at least 29 full days lie between them. For the statistics that
  \<^verbatim>\<open>get_statistics\<close> returns on a history of 11 entries with no VACUUM among them,
  \<^verbatim>\<open>last_vacuum\<close> is absent, \<^verbatim>\<open>total_versions\<close> is 11 and the never-vacuumed
  warning is emitted.
\<close>

theorem vacuum_rules:
  "(emits now stats never_vacuumed \<longleftrightarrow> last_vacuum stats = None \<and> total_versions stats > 10)
   \<and> (emits now stats vacuum_overdue \<longleftrightarrow>
        (\<exists>lv. last_vacuum stats = Some lv
              \<and> timedelta_days (now - lv) > 4 * VACUUM_RECOMMENDATION_DAYS))
   \<and> (\<forall>fromtimestamp p table.
        get_statistics fromtimestamp p table = Inr stats \<and> length (dt_history table) = 11
        \<and> (\<forall>e \<in> set (dt_history table). operation e \<noteq> Some ''VACUUM'')
        \<longrightarrow> last_vacuum stats = None \<and> total_versions stats = 11
            \<and> emits now stats never_vacuumed)
   \<and> (emits now stats vacuum_overdue \<longleftrightarrow>
        (\<exists>lv. last_vacuum stats = Some lv \<and> now - lv \<ge> 29 * 86400000000))"
proof -
  have never: "emits now stats never_vacuumed \<longleftrightarrow>
      last_vacuum stats = None \<and> total_versions stats > 10"
    by (simp add: emits_iff mem_rules_out mem_out) (simp add: insight_defs)
  have overdue: "emits now stats vacuum_overdue \<longleftrightarrow>
      (\<exists>lv. last_vacuum stats = Some lv \<and> timedelta_days (now - lv) > 28)"
    by (rule emits_vacuum_overdue)
  have full_days: "emits now stats vacuum_overdue \<longleftrightarrow>
      (\<exists>lv. last_vacuum stats = Some lv \<and> now - lv \<ge> 29 * 86400000000)"
    by (simp add: emits_vacuum_overdue timedelta_days_gt_28)
  have scenario: "last_vacuum stats = None \<and> total_versions stats = 11
      \<and> emits now stats never_vacuumed"
    if "get_statistics fromtimestamp p table = Inr stats" "length (dt_history table) = 11"
      "\<forall>e \<in> set (dt_history table). operation e \<noteq> Some ''VACUUM''"
    for fromtimestamp p table
    using get_statistics_no_vacuum [OF that(1) that(3)]
      get_statistics_total_versions [OF that(1)] that(2) never
    by simp
  have overdue': "emits now stats vacuum_overdue \<longleftrightarrow>
        (\<exists>lv. last_vacuum stats = Some lv
              \<and> timedelta_days (now - lv) > 4 * VACUUM_RECOMMENDATION_DAYS)"
    using overdue by (simp add: VACUUM_RECOMMENDATION_DAYS_def)
  from never overdue' scenario full_days show ?thesis by blast
qed

theorem vacuum_rules_witness:
  "\<exists>stats. get_statistics utc_fromtimestamp ''/data/table'' example_table = Inr stats
     \<and> length (dt_history example_table) = 11
     \<and> last_vacuum stats = None \<and> total_versions stats = 11
     \<and> emits 0 stats never_vacuumed
     \<and> emits (29 * day) (example_stats [] [] 1 (Some 0)) vacuum_overdue"
proof -
  from get_statistics_example obtain stats where
    s: "get_statistics utc_fromtimestamp ''/data/table'' example_table = Inr stats" ..
  have h: "dt_history example_table = example_history" by (simp add: example_table_def)
  have o: "timedelta_days (29 * day - 0) > 4 * VACUUM_RECOMMENDATION_DAYS"
    by (simp add: timedelta_days_def day_def VACUUM_RECOMMENDATION_DAYS_def)
  have l: "length (dt_history example_table) = 11"
    and v: "\<forall>e \<in> set (dt_history example_table). operation e \<noteq> Some ''VACUUM''"
    using example_history_length example_history_no_vacuum by (simp_all add: h)
  note scenario = vacuum_rules [of 0 stats, THEN conjunct2, THEN conjunct2, THEN conjunct1,
      rule_format]
  note overdue = vacuum_rules [of "29 * day" "example_stats [] [] 1 (Some 0)",
      THEN conjunct2, THEN conjunct1]
  from scenario [of utc_fromtimestamp "''/data/table''" example_table] s l v
  have "last_vacuum stats = None \<and> total_versions stats = 11 \<and> emits 0 stats never_vacuumed"
    by blast
  moreover from overdue o
  have "emits (29 * day) (example_stats [] [] 1 (Some 0)) vacuum_overdue"
    by simp
  ultimately show ?thesis using s l by blast
qed

text \<open>
  The claim as stated fails: a vacuum 28 days and 12 hours before the reading of the
  clock lies more than 28 days before it, and the difference has 28 whole days, so
  that the warning is not emitted.
\<close>

theorem vacuum_overdue_counterexample:
  "0 + 28 * day < 28 * day + 12 * hour
   \<and> last_vacuum (example_stats [] [] 1 (Some 0)) = Some 0
   \<and> \<not> emits (28 * day + 12 * hour) (example_stats [] [] 1 (Some 0)) vacuum_overdue"
  by (simp add: emits_vacuum_overdue timedelta_days_def day_def hour_def)

subsection \<open>Write patterns of the timeline\<close>




subsection \<open>Parsing of configuration values\<close>

text \<open>
  C2, as amended. For every configuration mapping and protocol, the feature report
  is returned exactly when the values of \<^verbatim>\<open>delta.dataSkippingNumIndexedCols\<close> and of
  \<^verbatim>\<open>delta.deletedFileRetentionDuration\<close> (the latter with "hours" removed and
  stripped) are accepted by \<^verbatim>\<open>int\<close>, with the defaults "32" and "168" standing in
  for absent keys; the report then has the parsed numbers, so 32 indexed columns and 168
  retention hours when both keys are absent. Otherwise the extraction raises, and the
  only exception is ValueError: there is no fallback to a default for a value that is
  present and does not parse.
\<close>

theorem advanced_features_parsing:
  "(map_of config ''delta.dataSkippingNumIndexedCols'' = None
      \<and> map_of config ''delta.deletedFileRetentionDuration'' = None
    \<longrightarrow> (\<exists>r. detect_advanced_features config protocol = Inr r
             \<and> data_skipping_num_indexed_cols r = 32 \<and> vacuum_retention_hours r = 168))
   \<and> ((\<exists>r. detect_advanced_features config protocol = Inr r) \<longleftrightarrow>
        (\<exists>n. py_int (dict_get config ''delta.dataSkippingNumIndexedCols'' ''32'') = Inr n)
        \<and> (\<exists>h. py_int (strip (replace ''hours'' []
                  (dict_get config ''delta.deletedFileRetentionDuration'' ''168''))) = Inr h))
   \<and> (\<forall>n h r. py_int (dict_get config ''delta.dataSkippingNumIndexedCols'' ''32'') = Inr n
        \<and> py_int (strip (replace ''hours'' []
              (dict_get config ''delta.deletedFileRetentionDuration'' ''168''))) = Inr h
        \<and> detect_advanced_features config protocol = Inr r
        \<longrightarrow> data_skipping_num_indexed_cols r = n \<and> vacuum_retention_hours r = h)
   \<and> (\<forall>e. detect_advanced_features config protocol = Inl e \<longrightarrow> e = ValueError)"
proof -
  have 1: "\<exists>r. detect_advanced_features config protocol = Inr r
             \<and> data_skipping_num_indexed_cols r = 32 \<and> vacuum_retention_hours r = 168"
    if "map_of config ''delta.dataSkippingNumIndexedCols'' = None"
      "map_of config ''delta.deletedFileRetentionDuration'' = None"
    using that by (simp add: detect_advanced_features_def Let_def dict_get_def py_int_32 py_int_168)
  have 2: "(\<exists>r. detect_advanced_features config protocol = Inr r) \<longleftrightarrow>
        (\<exists>n. py_int (dict_get config ''delta.dataSkippingNumIndexedCols'' ''32'') = Inr n)
        \<and> (\<exists>h. py_int (strip (replace ''hours'' []
                  (dict_get config ''delta.deletedFileRetentionDuration'' ''168''))) = Inr h)"
    by (auto simp: detect_advanced_features_def Let_def bind_eq_Inr)
  have 3: "data_skipping_num_indexed_cols r = n \<and> vacuum_retention_hours r = h"
    if "py_int (dict_get config ''delta.dataSkippingNumIndexedCols'' ''32'') = Inr n"
      "py_int (strip (replace ''hours'' []
              (dict_get config ''delta.deletedFileRetentionDuration'' ''168''))) = Inr h"
      "detect_advanced_features config protocol = Inr r" for n h r
    using that by (auto simp: detect_advanced_features_def Let_def)
  have 4: "e = ValueError" if "detect_advanced_features config protocol = Inl e" for e
    using that by (auto simp: detect_advanced_features_def Let_def bind_eq_Inl dest: py_int_error)
  from 1 2 3 4 show ?thesis by blast
qed

theorem advanced_features_parsing_witness:
  "\<exists>r. detect_advanced_features [] example_protocol = Inr r
      \<and> data_skipping_num_indexed_cols r = 32 \<and> vacuum_retention_hours r = 168"
  using advanced_features_parsing [of "[]" example_protocol] by simp

text \<open>
  The claim as stated fails on the retention written as Delta writes an interval:
  "interval 168 hours" leaves "interval 168" for \<^verbatim>\<open>int\<close>, which raises.
\<close>

theorem advanced_features_counterexample:
  "detect_advanced_features example_config example_protocol = Inl ValueError"
proof -
  have "py_int (strip (replace ''hours'' [] ''interval 168 hours'')) = Inl ValueError"
    by code_simp
  then show ?thesis
    by (simp add: detect_advanced_features_def Let_def example_config_def dict_get_def py_int_32)
qed

end
